theory Spec2Isabelle
  imports Complex_Main "HOL-Library.Multiset"
begin

section \<open>Numbers of the analysis engine\<close>

text \<open>
  The indicator code of \<^verbatim>\<open>app.py\<close> computes on binary64 values held in pandas Series.
  A value is modelled as a finite real or one of the three special values of IEEE 754.
  The special values follow the IEEE rules (NaN is contagious and compares false with
  everything, \<open>inf - inf\<close> and \<open>0 * inf\<close> are NaN); arithmetic on finite values is exact,
  so rounding, overflow to infinity and the sign of zero are outside the model.
\<close>

datatype float64 = Fin real | PInf | NInf | NaN

fun is_nan :: "float64 \<Rightarrow> bool" where
  "is_nan NaN = True"
| "is_nan _ = False"

fun is_inf :: "float64 \<Rightarrow> bool" where
  "is_inf PInf = True"
| "is_inf NInf = True"
| "is_inf _ = False"

fun is_finite :: "float64 \<Rightarrow> bool" where
  "is_finite (Fin a) = True"
| "is_finite _ = False"

fun real_of :: "float64 \<Rightarrow> real" where
  "real_of (Fin a) = a"
| "real_of _ = 0"

fun fneg :: "float64 \<Rightarrow> float64" where
  "fneg (Fin a) = Fin (- a)"
| "fneg PInf = NInf"
| "fneg NInf = PInf"
| "fneg NaN = NaN"

fun fabs :: "float64 \<Rightarrow> float64" where
  "fabs (Fin a) = Fin \<bar>a\<bar>"
| "fabs PInf = PInf"
| "fabs NInf = PInf"
| "fabs NaN = NaN"

fun fadd :: "float64 \<Rightarrow> float64 \<Rightarrow> float64" where
  "fadd NaN _ = NaN"
| "fadd _ NaN = NaN"
| "fadd (Fin a) (Fin b) = Fin (a + b)"
| "fadd PInf NInf = NaN"
| "fadd NInf PInf = NaN"
| "fadd PInf _ = PInf"
| "fadd NInf _ = NInf"
| "fadd (Fin a) y = y"

definition fsub :: "float64 \<Rightarrow> float64 \<Rightarrow> float64" where
  "fsub x y = fadd x (fneg y)"

fun fmul :: "float64 \<Rightarrow> float64 \<Rightarrow> float64" where
  "fmul NaN _ = NaN"
| "fmul _ NaN = NaN"
| "fmul (Fin a) (Fin b) = Fin (a * b)"
| "fmul (Fin a) PInf = (if a = 0 then NaN else if 0 < a then PInf else NInf)"
| "fmul (Fin a) NInf = (if a = 0 then NaN else if 0 < a then NInf else PInf)"
| "fmul PInf (Fin b) = (if b = 0 then NaN else if 0 < b then PInf else NInf)"
| "fmul NInf (Fin b) = (if b = 0 then NaN else if 0 < b then NInf else PInf)"
| "fmul PInf PInf = PInf"
| "fmul NInf NInf = PInf"
| "fmul PInf NInf = NInf"
| "fmul NInf PInf = NInf"

fun fdiv :: "float64 \<Rightarrow> float64 \<Rightarrow> float64" where
  "fdiv NaN _ = NaN"
| "fdiv _ NaN = NaN"
| "fdiv (Fin a) (Fin b) =
     (if b = 0 then (if a = 0 then NaN else if 0 < a then PInf else NInf) else Fin (a / b))"
| "fdiv (Fin a) _ = Fin 0"
| "fdiv PInf (Fin b) = (if 0 \<le> b then PInf else NInf)"
| "fdiv NInf (Fin b) = (if 0 \<le> b then NInf else PInf)"
| "fdiv _ _ = NaN"

fun flt :: "float64 \<Rightarrow> float64 \<Rightarrow> bool" where
  "flt NaN _ = False"
| "flt _ NaN = False"
| "flt (Fin a) (Fin b) = (a < b)"
| "flt PInf _ = False"
| "flt _ NInf = False"
| "flt _ _ = True"

definition fgt :: "float64 \<Rightarrow> float64 \<Rightarrow> bool" where
  "fgt x y = flt y x"

fun feq :: "float64 \<Rightarrow> float64 \<Rightarrow> bool" where
  "feq NaN _ = False"
| "feq _ NaN = False"
| "feq x y = (x = y)"

definition fle :: "float64 \<Rightarrow> float64 \<Rightarrow> bool" where
  "fle x y = (flt x y \<or> feq x y)"

section \<open>The pandas operations the calculators use\<close>

datatype error = IndexError | ValueError

text \<open>\<^verbatim>\<open>s.iloc[-1]\<close>: the last element; IndexError on an empty Series.\<close>

definition iloc_last :: "'a list \<Rightarrow> error + 'a" where
  "iloc_last xs = (if xs = [] then Inl IndexError else Inr (last xs))"

text \<open>\<^verbatim>\<open>s.diff()\<close> and \<^verbatim>\<open>s.shift()\<close>: the first position has no predecessor and is NaN.\<close>

definition shift :: "float64 list \<Rightarrow> float64 list" where
  "shift xs = (if xs = [] then [] else NaN # butlast xs)"

definition diff :: "float64 list \<Rightarrow> float64 list" where
  "diff xs = map2 fsub xs (shift xs)"

text \<open>\<^verbatim>\<open>s.where(cond, other)\<close> keeps the value where the condition holds.\<close>

definition where_series :: "float64 list \<Rightarrow> bool list \<Rightarrow> float64 \<Rightarrow> float64 list" where
  "where_series xs cond other = map2 (\<lambda>x c. if c then x else other) xs cond"

text \<open>\<^verbatim>\<open>s.replace(a, b)\<close> on values equal to \<open>a\<close> (NaN equals nothing).\<close>

definition replace :: "float64 list \<Rightarrow> float64 \<Rightarrow> float64 \<Rightarrow> float64 list" where
  "replace xs a b = map (\<lambda>x. if feq x a then b else x) xs"

text \<open>
  \<^verbatim>\<open>s.rolling(window=w)\<close> with the default \<open>min_periods = w\<close>: position \<open>i\<close> sees the
  values at \<open>i - w + 1 .. i\<close>. pandas turns infinities into NaN before aggregating, and a
  window with fewer than \<open>w\<close> valid observations (or with none) gives NaN. A negative
  window is rejected with ValueError.
\<close>

definition window_at :: "nat \<Rightarrow> float64 list \<Rightarrow> nat \<Rightarrow> float64 list" where
  "window_at w xs i = drop (Suc i - w) (take (Suc i) xs)"

definition window_ok :: "nat \<Rightarrow> float64 list \<Rightarrow> bool" where
  "window_ok w win = (0 < w \<and> length win = w \<and> list_all is_finite win)"

definition mean_of :: "float64 list \<Rightarrow> real" where
  "mean_of win = sum_list (map real_of win) / real (length win)"

definition mean_at :: "nat \<Rightarrow> float64 list \<Rightarrow> nat \<Rightarrow> float64" where
  "mean_at w xs i =
     (let win = window_at w xs i in if window_ok w win then Fin (mean_of win) else NaN)"

definition std_at :: "nat \<Rightarrow> float64 list \<Rightarrow> nat \<Rightarrow> float64" where
  "std_at w xs i =
     (let win = window_at w xs i in
      if window_ok w win \<and> 1 < w
      then Fin (sqrt (sum_list (map (\<lambda>x. (real_of x - mean_of win)\<^sup>2) win) / (real w - 1)))
      else NaN)"

definition rolling_mean :: "int \<Rightarrow> float64 list \<Rightarrow> error + float64 list" where
  "rolling_mean w xs =
     (if w < 0 then Inl ValueError else Inr (map (mean_at (nat w) xs) [0..<length xs]))"

definition rolling_std :: "int \<Rightarrow> float64 list \<Rightarrow> error + float64 list" where
  "rolling_std w xs =
     (if w < 0 then Inl ValueError else Inr (map (std_at (nat w) xs) [0..<length xs]))"

text \<open>
  \<^verbatim>\<open>s.ewm(span=n).mean()\<close> with the defaults \<open>adjust=True\<close>, \<open>ignore_na=False\<close>,
  \<open>min_periods=0\<close>, as the recursion of pandas: the running average \<open>weighted\<close> and the
  weight \<open>old_wt\<close> of the past, decayed by \<open>1 - alpha\<close> with \<open>alpha = 2 / (span + 1)\<close> at
  every position, a new observation entering with weight 1. A NaN position repeats the
  running average; a constant run leaves it untouched. As for the rolling windows, an
  infinite value counts as missing, and a span below 1 is rejected with ValueError.
\<close>

fun inf_to_nan :: "float64 \<Rightarrow> float64" where
  "inf_to_nan PInf = NaN"
| "inf_to_nan NInf = NaN"
| "inf_to_nan x = x"

definition ewm_step :: "real \<Rightarrow> float64 \<times> real \<Rightarrow> float64 \<Rightarrow> float64 \<times> real" where
  "ewm_step f st cur =
     (let weighted = fst st; old_wt = snd st in
      if \<not> is_nan weighted then
        (if \<not> is_nan cur then
           (let ow = old_wt * f in
            ((if weighted \<noteq> cur
              then fdiv (fadd (fmul (Fin ow) weighted) (fmul (Fin 1) cur)) (Fin (ow + 1))
              else weighted), ow + 1))
         else (weighted, old_wt * f))
      else if \<not> is_nan cur then (cur, old_wt)
      else (weighted, old_wt))"

fun ewm_run :: "real \<Rightarrow> float64 \<times> real \<Rightarrow> float64 list \<Rightarrow> float64 list" where
  "ewm_run f st [] = []"
| "ewm_run f st (x # xs) = (let st' = ewm_step f st x in fst st' # ewm_run f st' xs)"

definition ewm_mean :: "real \<Rightarrow> float64 list \<Rightarrow> error + float64 list" where
  "ewm_mean spn xs =
     (if spn < 1 then Inl ValueError
      else Inr (case map inf_to_nan xs of [] \<Rightarrow> []
                | x # rest \<Rightarrow> x # ewm_run (1 - 2 / (spn + 1)) (x, 1) rest))"

text \<open>The row maximum of \<^verbatim>\<open>pd.concat([...], axis=1).max(axis=1)\<close> skips NaN entries.\<close>

fun fmax_skipna :: "float64 \<Rightarrow> float64 \<Rightarrow> float64" where
  "fmax_skipna NaN y = y"
| "fmax_skipna x NaN = x"
| "fmax_skipna x y = (if flt x y then y else x)"

definition row_max3 :: "float64 list \<Rightarrow> float64 list \<Rightarrow> float64 list \<Rightarrow> float64 list" where
  "row_max3 xs ys zs = map2 fmax_skipna (map2 fmax_skipna xs ys) zs"

section \<open>Numeric guard\<close>

definition safe_float :: "float64 \<Rightarrow> float64 \<Rightarrow> float64" where
  "safe_float v dflt = (if is_nan v \<or> is_inf v then dflt else v)"

section \<open>Price series and indicator results\<close>

record bar =
  High :: float64
  Low :: float64
  Close :: float64

record macd_result =
  macd :: float64
  signal :: float64
  histogram :: float64

record bollinger_result =
  upper :: float64
  middle :: float64
  lower :: float64
  current :: float64

record ma_result =
  short_ma :: float64
  long_ma :: float64
  crossover :: bool

section \<open>The five calculators\<close>

definition rsi_try :: "bar list \<Rightarrow> int \<Rightarrow> error + float64" where
  "rsi_try data period =
     (let delta = diff (map Close data);
          gain = where_series delta (map (\<lambda>d. fgt d (Fin 0)) delta) (Fin 0);
          loss = map fneg (where_series delta (map (\<lambda>d. flt d (Fin 0)) delta) (Fin 0))
      in case rolling_mean period gain of Inl e \<Rightarrow> Inl e | Inr avg_gain \<Rightarrow>
         (case rolling_mean period loss of Inl e \<Rightarrow> Inl e | Inr avg_loss0 \<Rightarrow>
          (let avg_loss = replace avg_loss0 (Fin 0) (Fin (1 / 100));
               rs = map2 fdiv avg_gain avg_loss;
               rsi = map (\<lambda>r. fsub (Fin 100) (fdiv (Fin 100) (fadd (Fin 1) r))) rs;
               result = (if 0 < length rsi then last rsi else Fin 50)
           in Inr (safe_float result (Fin 50)))))"

definition calculate_rsi :: "bar list \<Rightarrow> int \<Rightarrow> float64" where
  "calculate_rsi data period =
     (case rsi_try data period of Inr r \<Rightarrow> r | Inl e \<Rightarrow> Fin 50)"

definition macd_try :: "bar list \<Rightarrow> real \<Rightarrow> real \<Rightarrow> real \<Rightarrow> error + macd_result" where
  "macd_try data fast slow sig =
     (case ewm_mean fast (map Close data) of Inl e \<Rightarrow> Inl e | Inr exp1 \<Rightarrow>
      (case ewm_mean slow (map Close data) of Inl e \<Rightarrow> Inl e | Inr exp2 \<Rightarrow>
       (let macd_line = map2 fsub exp1 exp2
        in case ewm_mean sig macd_line of Inl e \<Rightarrow> Inl e | Inr signal_line \<Rightarrow>
           (let hist = map2 fsub macd_line signal_line
            in case iloc_last macd_line of Inl e \<Rightarrow> Inl e | Inr m \<Rightarrow>
               (case iloc_last signal_line of Inl e \<Rightarrow> Inl e | Inr s \<Rightarrow>
                (case iloc_last hist of Inl e \<Rightarrow> Inl e | Inr h \<Rightarrow>
                   Inr \<lparr>macd = safe_float m (Fin 0), signal = safe_float s (Fin 0),
                        histogram = safe_float h (Fin 0)\<rparr>))))))"

definition calculate_macd :: "bar list \<Rightarrow> real \<Rightarrow> real \<Rightarrow> real \<Rightarrow> macd_result" where
  "calculate_macd data fast slow sig =
     (case macd_try data fast slow sig of Inr r \<Rightarrow> r
      | Inl e \<Rightarrow> \<lparr>macd = Fin 0, signal = Fin 0, histogram = Fin 0\<rparr>)"

definition bollinger_try :: "bar list \<Rightarrow> int \<Rightarrow> float64 \<Rightarrow> error + bollinger_result" where
  "bollinger_try data period std_dev =
     (case rolling_mean period (map Close data) of Inl e \<Rightarrow> Inl e | Inr sma \<Rightarrow>
      (case rolling_std period (map Close data) of Inl e \<Rightarrow> Inl e | Inr std \<Rightarrow>
       (let upper_band = map2 fadd sma (map (\<lambda>s. fmul s std_dev) std);
            lower_band = map2 fsub sma (map (\<lambda>s. fmul s std_dev) std)
        in case iloc_last (map Close data) of Inl e \<Rightarrow> Inl e | Inr current_price \<Rightarrow>
           (case iloc_last upper_band of Inl e \<Rightarrow> Inl e | Inr u \<Rightarrow>
            (case iloc_last sma of Inl e \<Rightarrow> Inl e | Inr m \<Rightarrow>
             (case iloc_last lower_band of Inl e \<Rightarrow> Inl e | Inr l \<Rightarrow>
                Inr \<lparr>upper = safe_float u (fmul current_price (Fin (11 / 10))),
                     middle = safe_float m current_price,
                     lower = safe_float l (fmul current_price (Fin (9 / 10))),
                     current = safe_float current_price (Fin 0)\<rparr>))))))"

definition bollinger_except :: "bar list \<Rightarrow> error + bollinger_result" where
  "bollinger_except data =
     (case iloc_last (map Close data) of Inl e \<Rightarrow> Inl e | Inr c \<Rightarrow>
      (let current_price = safe_float c (Fin 100)
       in Inr \<lparr>upper = fmul current_price (Fin (11 / 10)), middle = current_price,
               lower = fmul current_price (Fin (9 / 10)), current = current_price\<rparr>))"

definition calculate_bollinger_bands ::
  "bar list \<Rightarrow> int \<Rightarrow> float64 \<Rightarrow> error + bollinger_result" where
  "calculate_bollinger_bands data period std_dev =
     (case bollinger_try data period std_dev of Inr r \<Rightarrow> Inr r
      | Inl e \<Rightarrow> bollinger_except data)"

text \<open>The windows of the crossover: shrunk when the series is shorter than \<open>long\<close>.\<close>

definition ma_windows :: "int \<Rightarrow> int \<Rightarrow> int \<Rightarrow> int \<times> int" where
  "ma_windows len short long =
     (if len < long then (min 5 (len div 2), min 10 (len - 1)) else (short, long))"

definition ma_try :: "bar list \<Rightarrow> int \<Rightarrow> int \<Rightarrow> error + ma_result" where
  "ma_try data short long =
     (let w = ma_windows (int (length data)) short long
      in case rolling_mean (fst w) (map Close data) of Inl e \<Rightarrow> Inl e | Inr shorts \<Rightarrow>
         (case rolling_mean (snd w) (map Close data) of Inl e \<Rightarrow> Inl e | Inr longs \<Rightarrow>
          (case iloc_last shorts of Inl e \<Rightarrow> Inl e | Inr s \<Rightarrow>
           (case iloc_last (map Close data) of Inl e \<Rightarrow> Inl e | Inr c \<Rightarrow>
            (case iloc_last longs of Inl e \<Rightarrow> Inl e | Inr l \<Rightarrow>
             (let short_val = safe_float s c; long_val = safe_float l c
              in Inr \<lparr>short_ma = short_val, long_ma = long_val,
                      crossover = fgt short_val long_val\<rparr>))))))"

definition ma_except :: "bar list \<Rightarrow> error + ma_result" where
  "ma_except data =
     (case iloc_last (map Close data) of Inl e \<Rightarrow> Inl e | Inr c \<Rightarrow>
      (let current_price = safe_float c (Fin 100)
       in Inr \<lparr>short_ma = current_price, long_ma = current_price, crossover = False\<rparr>))"

definition calculate_moving_average_crossover ::
  "bar list \<Rightarrow> int \<Rightarrow> int \<Rightarrow> error + ma_result" where
  "calculate_moving_average_crossover data short long =
     (case ma_try data short long of Inr r \<Rightarrow> Inr r | Inl e \<Rightarrow> ma_except data)"

definition volatility_try :: "bar list \<Rightarrow> int \<Rightarrow> error + float64" where
  "volatility_try data period =
     (if int (length data) < period then Inr (Fin 2)
      else
       (let high_low = map2 fsub (map High data) (map Low data);
            high_close = map fabs (map2 fsub (map High data) (shift (map Close data)));
            low_close = map fabs (map2 fsub (map Low data) (shift (map Close data)));
            true_range = row_max3 high_low high_close low_close
        in case rolling_mean period true_range of Inl e \<Rightarrow> Inl e | Inr atr \<Rightarrow>
           (case iloc_last (map Close data) of Inl e \<Rightarrow> Inl e | Inr c \<Rightarrow>
            (let current_price = safe_float c (Fin 100)
             in case iloc_last atr of Inl e \<Rightarrow> Inl e | Inr a \<Rightarrow>
                (let atr_val = safe_float a (fmul current_price (Fin (1 / 50)))
                 in if fle current_price (Fin 0) then Inr (Fin 2)
                    else Inr (safe_float (fmul (fdiv atr_val current_price) (Fin 100))
                                (Fin 2)))))))"

definition calculate_volatility :: "bar list \<Rightarrow> int \<Rightarrow> float64" where
  "calculate_volatility data period =
     (case volatility_try data period of Inr r \<Rightarrow> r | Inl e \<Rightarrow> Fin 2)"

section \<open>Signal classifier and suggestion aggregator\<close>

record indicators =
  rsi :: float64
  macd_data :: macd_result
  ma_data :: ma_result
  bb_data :: bollinger_result
  volatility :: float64

text \<open>The \<^verbatim>\<open>signals\<close> dictionary, in insertion order.\<close>

definition get_indicator_signals :: "indicators \<Rightarrow> (string \<times> string) list" where
  "get_indicator_signals ind =
     [(''rsi'',
         if flt (rsi ind) (Fin 30) then ''Buy''
         else if fgt (rsi ind) (Fin 70) then ''Sell'' else ''Hold''),
      (''macd'',
         if fgt (macd (macd_data ind)) (signal (macd_data ind))
            \<and> fgt (histogram (macd_data ind)) (Fin 0) then ''Buy''
         else if flt (macd (macd_data ind)) (signal (macd_data ind))
            \<and> flt (histogram (macd_data ind)) (Fin 0) then ''Sell'' else ''Hold''),
      (''moving_average'',
         if crossover (ma_data ind) then ''Buy'' else ''Sell''),
      (''bollinger_bands'',
         if flt (current (bb_data ind)) (lower (bb_data ind)) then ''Buy''
         else if fgt (current (bb_data ind)) (upper (bb_data ind)) then ''Sell''
         else ''Hold''),
      (''volatility'',
         if fgt (volatility ind) (Fin 5) then ''Sell''
         else if flt (volatility ind) (Fin 2) then ''Buy'' else ''Hold'')]"

definition count_signal :: "string \<Rightarrow> (string \<times> string) list \<Rightarrow> nat" where
  "count_signal s signals = sum_list (map (\<lambda>v. 1) (filter (\<lambda>v. v = s) (map snd signals)))"

definition calculate_final_suggestion :: "(string \<times> string) list \<Rightarrow> string" where
  "calculate_final_suggestion signals =
     (let buy_count = count_signal ''Buy'' signals;
          sell_count = count_signal ''Sell'' signals
      in if 3 \<le> buy_count then ''Strong Buy''
         else if 3 \<le> sell_count then ''Strong Sell''
         else if sell_count < buy_count then ''Buy''
         else if buy_count < sell_count then ''Sell''
         else ''Hold'')"

text \<open>
  The indicator dictionary that \<^verbatim>\<open>analyze\<close> builds, with the default parameters of
  the calculators, and the suggestion derived from it.
\<close>

definition compute_indicators :: "bar list \<Rightarrow> error + indicators" where
  "compute_indicators hist =
     (case calculate_moving_average_crossover hist 50 200 of Inl e \<Rightarrow> Inl e | Inr ma \<Rightarrow>
      (case calculate_bollinger_bands hist 20 (Fin 2) of Inl e \<Rightarrow> Inl e | Inr bb \<Rightarrow>
         Inr \<lparr>rsi = calculate_rsi hist 14, macd_data = calculate_macd hist 12 26 9,
              ma_data = ma, bb_data = bb, volatility = calculate_volatility hist 14\<rparr>))"

text \<open>
  The tail of \<^verbatim>\<open>analyze\<close>: the indicators, their signals and the final suggestion.
\<close>

definition analyze_report ::
  "bar list \<Rightarrow> error + indicators \<times> (string \<times> string) list \<times> string" where
  "analyze_report hist =
     (case compute_indicators hist of Inl e \<Rightarrow> Inl e
      | Inr ind \<Rightarrow>
          (let signals = get_indicator_signals ind
           in Inr (ind, signals, calculate_final_suggestion signals)))"

section \<open>Inputs used in the examples\<close>

definition bar_of :: "real \<Rightarrow> bar" where
  "bar_of c = \<lparr>High = Fin c, Low = Fin c, Close = Fin c\<rparr>"

definition nan_bar :: bar where
  "nan_bar = \<lparr>High = NaN, Low = NaN, Close = NaN\<rparr>"

definition nan_tail_series :: "bar list" where
  "nan_tail_series = replicate 24 (bar_of 100) @ [nan_bar]"


definition mid_range :: indicators where
  "mid_range =
     \<lparr>rsi = Fin 50, macd_data = \<lparr>macd = Fin 0, signal = Fin 0, histogram = Fin 0\<rparr>,
      ma_data = \<lparr>short_ma = Fin 100, long_ma = Fin 100, crossover = False\<rparr>,
      bb_data = \<lparr>upper = Fin 110, middle = Fin 100, lower = Fin 90, current = Fin 100\<rparr>,
      volatility = Fin 3\<rparr>"

definition flat_series :: "bar list" where
  "flat_series = replicate 250 (bar_of 100)"

section \<open>Basic facts\<close>

lemma flt_irrefl: "\<not> flt x x"
  by (cases x) simp_all

lemma count_signal_count_list: "count_signal s signals = count_list (map snd signals) s"
  unfolding count_signal_def by (induction signals) auto

lemma bar_of_sel: "Close (bar_of c) = Fin c" "High (bar_of c) = Fin c" "Low (bar_of c) = Fin c"
  by (simp_all add: bar_of_def)

lemma closes_flat: "map Close (replicate n (bar_of c)) = replicate n (Fin c)"
  and highs_flat: "map High (replicate n (bar_of c)) = replicate n (Fin c)"
  and lows_flat: "map Low (replicate n (bar_of c)) = replicate n (Fin c)"
  by (simp_all add: bar_of_def)

lemma last_map_upt: "0 < n \<Longrightarrow> last (map f [0..<n]) = f (n - 1)"
  by (simp add: last_map)

lemma last_closes: "data \<noteq> [] \<Longrightarrow> last (map Close data) = Close (last data)"
  by (simp add: last_map)

section \<open>Rolling windows\<close>

lemma window_at_length_le: "length (window_at w xs i) \<le> length xs"
  by (simp add: window_at_def)

lemma mean_at_short: "length xs < w \<or> w = 0 \<Longrightarrow> mean_at w xs i = NaN"
  using window_at_length_le [of w xs i]
  by (auto simp: mean_at_def window_ok_def Let_def)

lemma std_at_short: "length xs < w \<or> w = 0 \<Longrightarrow> std_at w xs i = NaN"
  using window_at_length_le [of w xs i]
  by (auto simp: std_at_def window_ok_def Let_def)

lemma rolling_mean_single:
  "0 \<le> w \<Longrightarrow> w \<noteq> 1 \<Longrightarrow> rolling_mean w [x] = Inr [NaN]"
proof -
  assume "0 \<le> w" "w \<noteq> 1"
  then have "length [x] < nat w \<or> nat w = 0" by auto
  then show ?thesis using \<open>0 \<le> w\<close> by (simp add: rolling_mean_def mean_at_short)
qed

lemma rolling_std_single:
  "0 \<le> w \<Longrightarrow> w \<noteq> 1 \<Longrightarrow> rolling_std w [x] = Inr [NaN]"
proof -
  assume "0 \<le> w" "w \<noteq> 1"
  then have "length [x] < nat w \<or> nat w = 0" by auto
  then show ?thesis using \<open>0 \<le> w\<close> by (simp add: rolling_std_def std_at_short)
qed

lemma last_in_window:
  assumes "xs \<noteq> []" and "0 < w"
  shows "last xs \<in> set (window_at w xs (length xs - 1))"
proof -
  have "window_at w xs (length xs - 1) = drop (length xs - w) xs"
    using assms by (simp add: window_at_def)
  moreover have lt: "length xs - w < length xs" using assms by (cases xs) auto
  then have "last (drop (length xs - w) xs) = last xs" by simp
  moreover have "drop (length xs - w) xs \<noteq> []" using lt by simp
  ultimately show ?thesis by (metis last_in_set)
qed

lemma window_ok_last_finite:
  assumes "xs \<noteq> []" and "window_ok w (window_at w xs (length xs - 1))"
  shows "is_finite (last xs)"
proof -
  from assms(2) have "0 < w" and "list_all is_finite (window_at w xs (length xs - 1))"
    by (simp_all add: window_ok_def)
  with last_in_window [OF assms(1)] show ?thesis by (auto simp: list_all_iff)
qed

lemma window_at_replicate:
  "window_at w (replicate n x) i = replicate (min (Suc i) n - (Suc i - w)) x"
  by (simp add: window_at_def)

lemma mean_of_replicate: "0 < k \<Longrightarrow> mean_of (replicate k (Fin c)) = c"
  by (simp add: mean_of_def sum_list_replicate)

lemma mean_at_replicate:
  "0 < w \<Longrightarrow> w \<le> n \<Longrightarrow> mean_at w (replicate n (Fin c)) (n - 1) = Fin c"
  by (simp add: mean_at_def window_at_replicate window_ok_def mean_of_replicate
      list_all_iff min_def)

lemma std_at_replicate:
  "1 < w \<Longrightarrow> w \<le> n \<Longrightarrow> std_at w (replicate n (Fin c)) (n - 1) = Fin 0"
  by (simp add: std_at_def window_at_replicate window_ok_def mean_of_replicate
      list_all_iff min_def sum_list_replicate)

section \<open>Series operations\<close>

lemma butlast_Cons_replicate: "butlast (x # replicate m x) = replicate m x"
  by (metis butlast_snoc replicate_append_same)

lemma shift_replicate: "shift (replicate (Suc m) x) = NaN # replicate m x"
  using butlast_Cons_replicate [of x m] by (simp add: shift_def del: butlast.simps)

lemma diff_flat: "diff (replicate (Suc m) (Fin c)) = NaN # replicate m (Fin 0)"
  using shift_replicate [of m "Fin c"] by (simp add: diff_def fsub_def)

lemma gain_flat:
  "where_series (NaN # replicate m (Fin 0))
     (map (\<lambda>d. fgt d (Fin 0)) (NaN # replicate m (Fin 0))) (Fin 0) = replicate (Suc m) (Fin 0)"
  by (simp add: where_series_def fgt_def)

lemma loss_flat:
  "map fneg (where_series (NaN # replicate m (Fin 0))
     (map (\<lambda>d. flt d (Fin 0)) (NaN # replicate m (Fin 0))) (Fin 0)) = replicate (Suc m) (Fin 0)"
  by (simp add: where_series_def)

lemma ewm_run_const: "ewm_run f (x, w) (replicate m x) = replicate m x"
  by (induction m arbitrary: w) (simp_all add: ewm_step_def Let_def)

lemma ewm_mean_const:
  "1 \<le> spn \<Longrightarrow> ewm_mean spn (replicate n (Fin c)) = Inr (replicate n (Fin c))"
  by (cases n) (simp_all add: ewm_mean_def ewm_run_const)

lemma true_range_flat:
  "row_max3 (map2 fsub (replicate (Suc m) (Fin c)) (replicate (Suc m) (Fin c)))
     (map fabs (map2 fsub (replicate (Suc m) (Fin c)) (shift (replicate (Suc m) (Fin c)))))
     (map fabs (map2 fsub (replicate (Suc m) (Fin c)) (shift (replicate (Suc m) (Fin c)))))
   = replicate (Suc m) (Fin 0)"
  unfolding shift_replicate by (simp add: row_max3_def fsub_def)

section \<open>The last value of each calculator\<close>

lemma bollinger_try_eq:
  assumes "data \<noteq> []" and "0 \<le> period"
  defines "c \<equiv> Close (last data)"
      and "m \<equiv> mean_at (nat period) (map Close data) (length data - 1)"
      and "s \<equiv> std_at (nat period) (map Close data) (length data - 1)"
  shows "bollinger_try data period k =
     Inr \<lparr>upper = safe_float (fadd m (fmul s k)) (fmul c (Fin (11 / 10))),
          middle = safe_float m c,
          lower = safe_float (fsub m (fmul s k)) (fmul c (Fin (9 / 10))),
          current = safe_float c (Fin 0)\<rparr>"
  using assms(1,2) unfolding c_def m_def s_def bollinger_try_def
  by (simp add: rolling_mean_def rolling_std_def Let_def iloc_last_def map2_map_map
      last_map_upt last_map del: upt_Suc)

lemma ma_try_eq:
  assumes "data \<noteq> []" and "0 \<le> fst (ma_windows (int (length data)) short long)"
      and "0 \<le> snd (ma_windows (int (length data)) short long)"
  defines "c \<equiv> Close (last data)"
      and "w \<equiv> ma_windows (int (length data)) short long"
  defines "sv \<equiv> safe_float (mean_at (nat (fst w)) (map Close data) (length data - 1)) c"
      and "lv \<equiv> safe_float (mean_at (nat (snd w)) (map Close data) (length data - 1)) c"
  shows "ma_try data short long = Inr \<lparr>short_ma = sv, long_ma = lv, crossover = fgt sv lv\<rparr>"
  using assms(1,2,3) unfolding c_def w_def sv_def lv_def ma_try_def
  by (simp add: rolling_mean_def Let_def iloc_last_def last_map_upt last_map del: upt_Suc)

lemma non_finite_close_bollinger:
  assumes "data \<noteq> []" and "\<not> is_finite (Close (last data))"
  shows "calculate_bollinger_bands data 20 (Fin 2) =
     Inr \<lparr>upper = fmul (Close (last data)) (Fin (11 / 10)), middle = Close (last data),
          lower = fmul (Close (last data)) (Fin (9 / 10)), current = Fin 0\<rparr>"
proof -
  have ne: "map Close data \<noteq> []" using assms(1) by simp
  have "\<not> window_ok 20 (window_at 20 (map Close data) (length (map Close data) - 1))"
    using window_ok_last_finite [OF ne, of 20] assms by (auto simp: last_closes)
  then have "mean_at 20 (map Close data) (length data - 1) = NaN"
    and "std_at 20 (map Close data) (length data - 1) = NaN"
    by (simp_all add: mean_at_def std_at_def)
  moreover have "is_nan (Close (last data)) \<or> is_inf (Close (last data))"
    using assms(2) by (cases "Close (last data)") simp_all
  ultimately show ?thesis
    using bollinger_try_eq [OF assms(1), of 20 "Fin 2"]
    by (simp add: calculate_bollinger_bands_def safe_float_def fsub_def)
qed

section \<open>The calculators on a constant series\<close>

lemma rsi_flat:
  assumes "14 \<le> Suc m"
  shows "calculate_rsi (replicate (Suc m) (bar_of c)) 14 = Fin 0"
proof -
  have m: "mean_at 14 (replicate (Suc m) (Fin 0)) (Suc m - 1) = Fin 0"
    using assms by (intro mean_at_replicate) simp_all
  have "rsi_try (replicate (Suc m) (bar_of c)) 14 = Inr (Fin 0)"
    unfolding rsi_try_def closes_flat diff_flat gain_flat loss_flat Let_def
    using m
    by (simp add: rolling_mean_def replace_def map2_map_map last_map_upt safe_float_def
        fsub_def del: replicate.simps upt_Suc)
  then show ?thesis by (simp add: calculate_rsi_def)
qed

lemma macd_flat:
  assumes "0 < n" and "1 \<le> fast" and "1 \<le> slow" and "1 \<le> sig"
  shows "calculate_macd (replicate n (bar_of c)) fast slow sig
           = \<lparr>macd = Fin 0, signal = Fin 0, histogram = Fin 0\<rparr>"
  using assms
  by (simp add: calculate_macd_def macd_try_def bar_of_sel ewm_mean_const fsub_def
      iloc_last_def safe_float_def Let_def)

lemma bollinger_flat:
  assumes "20 \<le> n"
  shows "calculate_bollinger_bands (replicate n (bar_of c)) 20 (Fin 2)
           = Inr \<lparr>upper = Fin c, middle = Fin c, lower = Fin c, current = Fin c\<rparr>"
proof -
  have ne: "replicate n (bar_of c) \<noteq> []" using assms by auto
  have m: "mean_at 20 (replicate n (Fin c)) (n - 1) = Fin c"
    using assms by (intro mean_at_replicate) simp_all
  have s: "std_at 20 (replicate n (Fin c)) (n - 1) = Fin 0"
    using assms by (intro std_at_replicate) simp_all
  show ?thesis
    using bollinger_try_eq [OF ne, of 20 "Fin 2"] m s assms
    by (simp add: calculate_bollinger_bands_def bar_of_sel safe_float_def fsub_def)
qed

lemma ma_flat:
  assumes "200 \<le> n"
  shows "calculate_moving_average_crossover (replicate n (bar_of c)) 50 200
           = Inr \<lparr>short_ma = Fin c, long_ma = Fin c, crossover = False\<rparr>"
proof -
  have ne: "replicate n (bar_of c) \<noteq> []" using assms by auto
  have w: "ma_windows (int n) 50 200 = (50, 200)" using assms by (simp add: ma_windows_def)
  have m: "mean_at 50 (replicate n (Fin c)) (n - 1) = Fin c"
    using assms by (intro mean_at_replicate) simp_all
  have l: "mean_at 200 (replicate n (Fin c)) (n - 1) = Fin c"
    using assms by (intro mean_at_replicate) simp_all
  show ?thesis
    using ma_try_eq [OF ne, of 50 200] m l assms
    by (simp add: calculate_moving_average_crossover_def bar_of_sel safe_float_def w fgt_def)
qed

lemma volatility_flat:
  assumes "14 \<le> Suc m" and "0 < c"
  shows "calculate_volatility (replicate (Suc m) (bar_of c)) 14 = Fin 0"
proof -
  have a: "mean_at 14 (replicate (Suc m) (Fin 0)) (Suc m - 1) = Fin 0"
    using assms by (intro mean_at_replicate) simp_all
  have "volatility_try (replicate (Suc m) (bar_of c)) 14 = Inr (Fin 0)"
    unfolding volatility_try_def closes_flat highs_flat lows_flat true_range_flat Let_def
    using assms a
    by (simp add: rolling_mean_def iloc_last_def last_map_upt safe_float_def fle_def
        del: replicate.simps upt_Suc)
  then show ?thesis by (simp add: calculate_volatility_def)
qed

section \<open>Bollinger bands\<close>





text \<open>
  C1: every calculator returns finite numbers for every series, also with NaN bars.
  The code at a series whose latest close is NaN: the Bollinger bands and both moving
  averages come back NaN, since the defaults given to \<open>safe_float\<close> are computed from
  the unguarded latest close.
\<close>

theorem nan_escapes_calculators:
  "calculate_bollinger_bands [nan_bar] 20 (Fin 2)
     = Inr \<lparr>upper = NaN, middle = NaN, lower = NaN, current = Fin 0\<rparr>
   \<and> calculate_moving_average_crossover [nan_bar] 50 200
     = Inr \<lparr>short_ma = NaN, long_ma = NaN, crossover = False\<rparr>
   \<and> calculate_bollinger_bands nan_tail_series 20 (Fin 2)
     = Inr \<lparr>upper = NaN, middle = NaN, lower = NaN, current = Fin 0\<rparr>"
proof -
  have "calculate_bollinger_bands nan_tail_series 20 (Fin 2)
     = Inr \<lparr>upper = NaN, middle = NaN, lower = NaN, current = Fin 0\<rparr>"
    using non_finite_close_bollinger [of nan_tail_series]
    by (simp add: nan_tail_series_def nan_bar_def)
  moreover have "calculate_bollinger_bands [nan_bar] 20 (Fin 2)
     = Inr \<lparr>upper = NaN, middle = NaN, lower = NaN, current = Fin 0\<rparr>"
    using non_finite_close_bollinger [of "[nan_bar]"] by (simp add: nan_bar_def)
  moreover have "calculate_moving_average_crossover [nan_bar] 50 200
     = Inr \<lparr>short_ma = NaN, long_ma = NaN, crossover = False\<rparr>"
    by (simp add: rolling_mean_single iloc_last_def safe_float_def nan_bar_def
        calculate_moving_average_crossover_def ma_try_def ma_windows_def fgt_def)
  ultimately show ?thesis by simp
qed

text \<open>
  C6: a Bollinger fallback recomputes all four fields together from the latest close,
  with 100 as the last resort. The code at a one-bar series with close NaN: the fields
  fall back one by one, to NaN, NaN, NaN and 0, where the exception branch of the same
  function gives 110, 100, 90 and 100.
\<close>

theorem bollinger_fallback_not_unit:
  "calculate_bollinger_bands [nan_bar] 20 (Fin 2)
     = Inr \<lparr>upper = NaN, middle = NaN, lower = NaN, current = Fin 0\<rparr>
   \<and> bollinger_except [nan_bar]
     = Inr \<lparr>upper = Fin 110, middle = Fin 100, lower = Fin 90, current = Fin 100\<rparr>"
  by (simp add: calculate_bollinger_bands_def bollinger_try_def rolling_mean_single
      rolling_std_single iloc_last_def safe_float_def nan_bar_def fsub_def bollinger_except_def Let_def)

section \<open>The flat series\<close>

lemma flat_series_Suc: "flat_series = replicate (Suc 249) (bar_of 100)"
  by (simp add: flat_series_def)

lemma flat_indicators:
  "compute_indicators flat_series =
     Inr \<lparr>rsi = Fin 0,
          macd_data = \<lparr>macd = Fin 0, signal = Fin 0, histogram = Fin 0\<rparr>,
          ma_data = \<lparr>short_ma = Fin 100, long_ma = Fin 100, crossover = False\<rparr>,
          bb_data = \<lparr>upper = Fin 100, middle = Fin 100, lower = Fin 100, current = Fin 100\<rparr>,
          volatility = Fin 0\<rparr>"
proof -
  have "calculate_rsi flat_series 14 = Fin 0"
    unfolding flat_series_Suc by (rule rsi_flat) simp
  moreover have "calculate_volatility flat_series 14 = Fin 0"
    unfolding flat_series_Suc by (rule volatility_flat) simp_all
  moreover have "calculate_macd flat_series 12 26 9
      = \<lparr>macd = Fin 0, signal = Fin 0, histogram = Fin 0\<rparr>"
    unfolding flat_series_def by (rule macd_flat) simp_all
  moreover have "calculate_bollinger_bands flat_series 20 (Fin 2)
      = Inr \<lparr>upper = Fin 100, middle = Fin 100, lower = Fin 100, current = Fin 100\<rparr>"
    unfolding flat_series_def by (rule bollinger_flat) simp
  moreover have "calculate_moving_average_crossover flat_series 50 200
      = Inr \<lparr>short_ma = Fin 100, long_ma = Fin 100, crossover = False\<rparr>"
    unfolding flat_series_def by (rule ma_flat) simp
  ultimately show ?thesis by (simp add: compute_indicators_def)
qed

text \<open>
  C2, as stated: on 250 bars at 100 the RSI is 50, the signals are Hold, Hold, Sell,
  Hold, Buy and the verdict is Hold. The RSI of the code is not 50 and the report is
  not the stated one.
\<close>

theorem flat_series_counterexample:
  "calculate_rsi flat_series 14 \<noteq> Fin 50
   \<and> analyze_report flat_series \<noteq>
       Inr (\<lparr>rsi = Fin 50,
             macd_data = \<lparr>macd = Fin 0, signal = Fin 0, histogram = Fin 0\<rparr>,
             ma_data = \<lparr>short_ma = Fin 100, long_ma = Fin 100, crossover = False\<rparr>,
             bb_data = \<lparr>upper = Fin 100, middle = Fin 100, lower = Fin 100,
                        current = Fin 100\<rparr>,
             volatility = Fin 0\<rparr>,
            [(''rsi'', ''Hold''), (''macd'', ''Hold''), (''moving_average'', ''Sell''),
             (''bollinger_bands'', ''Hold''), (''volatility'', ''Buy'')],
            ''Hold'')"
proof -
  have "calculate_rsi flat_series 14 = Fin 0"
    unfolding flat_series_Suc by (rule rsi_flat) simp
  then show ?thesis by (simp add: analyze_report_def flat_indicators Let_def)
qed

text \<open>
  C2, amended: on 250 bars with high = low = close = 100 the RSI is 0 (the zero average
  loss is replaced by 0.01, so RS = 0), the MACD histogram is 0, the four Bollinger
  fields are 100, the crossover is false and the volatility is 0; the signals are Buy,
  Hold, Sell, Hold, Buy, the tally is 2 Buy and 1 Sell, and the verdict is Buy.
\<close>

theorem flat_series_report:
  "analyze_report flat_series =
     Inr (\<lparr>rsi = Fin 0,
           macd_data = \<lparr>macd = Fin 0, signal = Fin 0, histogram = Fin 0\<rparr>,
           ma_data = \<lparr>short_ma = Fin 100, long_ma = Fin 100, crossover = False\<rparr>,
           bb_data = \<lparr>upper = Fin 100, middle = Fin 100, lower = Fin 100,
                      current = Fin 100\<rparr>,
           volatility = Fin 0\<rparr>,
          [(''rsi'', ''Buy''), (''macd'', ''Hold''), (''moving_average'', ''Sell''),
           (''bollinger_bands'', ''Hold''), (''volatility'', ''Buy'')],
          ''Buy'')
   \<and> count_signal ''Buy''
        [(''rsi'', ''Buy''), (''macd'', ''Hold''), (''moving_average'', ''Sell''),
         (''bollinger_bands'', ''Hold''), (''volatility'', ''Buy'')] = 2
   \<and> count_signal ''Sell''
        [(''rsi'', ''Buy''), (''macd'', ''Hold''), (''moving_average'', ''Sell''),
         (''bollinger_bands'', ''Hold''), (''volatility'', ''Buy'')] = 1"
  by (simp add: analyze_report_def flat_indicators get_indicator_signals_def fgt_def
      calculate_final_suggestion_def count_signal_def Let_def)

section \<open>Suggestion aggregator\<close>

text \<open>
  C5: the aggregator is a priority ladder on the number \<open>b\<close> of Buy signals and the
  number \<open>s\<close> of Sell signals: three or more Buy give Strong Buy; otherwise three or
  more Sell give Strong Sell; otherwise the larger count wins, and a tie is Hold. In
  particular 3 Buy with 2 Sell is Strong Buy, and 2 Buy with 2 Sell is Hold.
\<close>

theorem final_suggestion_priority:
  fixes signals :: "(string \<times> string) list"
  defines "b \<equiv> count_list (map snd signals) ''Buy''"
      and "s \<equiv> count_list (map snd signals) ''Sell''"
  shows "(3 \<le> b \<longrightarrow> calculate_final_suggestion signals = ''Strong Buy'')
       \<and> (b < 3 \<and> 3 \<le> s \<longrightarrow> calculate_final_suggestion signals = ''Strong Sell'')
       \<and> (b < 3 \<and> s < 3 \<and> s < b \<longrightarrow> calculate_final_suggestion signals = ''Buy'')
       \<and> (b < 3 \<and> s < 3 \<and> b < s \<longrightarrow> calculate_final_suggestion signals = ''Sell'')
       \<and> (b < 3 \<and> s < 3 \<and> b = s \<longrightarrow> calculate_final_suggestion signals = ''Hold'')
       \<and> (b = 3 \<and> s = 2 \<longrightarrow> calculate_final_suggestion signals = ''Strong Buy'')
       \<and> (b = 2 \<and> s = 2 \<longrightarrow> calculate_final_suggestion signals = ''Hold'')"
  unfolding b_def s_def calculate_final_suggestion_def
  by (simp add: count_signal_count_list Let_def)

theorem final_suggestion_priority_witness:
  "calculate_final_suggestion
     [(''rsi'', ''Buy''), (''macd'', ''Sell''), (''moving_average'', ''Buy''),
      (''bollinger_bands'', ''Sell''), (''volatility'', ''Buy'')] = ''Strong Buy''
   \<and> calculate_final_suggestion
     [(''rsi'', ''Buy''), (''macd'', ''Sell''), (''moving_average'', ''Buy''),
      (''bollinger_bands'', ''Sell''), (''volatility'', ''Hold'')] = ''Hold''
   \<and> calculate_final_suggestion
     [(''rsi'', ''Hold''), (''macd'', ''Sell''), (''moving_average'', ''Sell''),
      (''bollinger_bands'', ''Sell''), (''volatility'', ''Hold'')] = ''Strong Sell''
   \<and> calculate_final_suggestion
     [(''rsi'', ''Hold''), (''macd'', ''Buy''), (''moving_average'', ''Sell''),
      (''bollinger_bands'', ''Buy''), (''volatility'', ''Hold'')] = ''Buy''
   \<and> calculate_final_suggestion
     [(''rsi'', ''Hold''), (''macd'', ''Buy''), (''moving_average'', ''Sell''),
      (''bollinger_bands'', ''Sell''), (''volatility'', ''Hold'')] = ''Sell''"
  using final_suggestion_priority
          [of "[(''rsi'', ''Buy''), (''macd'', ''Sell''), (''moving_average'', ''Buy''),
                (''bollinger_bands'', ''Sell''), (''volatility'', ''Buy'')]"]
        final_suggestion_priority
          [of "[(''rsi'', ''Buy''), (''macd'', ''Sell''), (''moving_average'', ''Buy''),
                (''bollinger_bands'', ''Sell''), (''volatility'', ''Hold'')]"]
        final_suggestion_priority
          [of "[(''rsi'', ''Hold''), (''macd'', ''Sell''), (''moving_average'', ''Sell''),
                (''bollinger_bands'', ''Sell''), (''volatility'', ''Hold'')]"]
        final_suggestion_priority
          [of "[(''rsi'', ''Hold''), (''macd'', ''Buy''), (''moving_average'', ''Sell''),
                (''bollinger_bands'', ''Buy''), (''volatility'', ''Hold'')]"]
        final_suggestion_priority
          [of "[(''rsi'', ''Hold''), (''macd'', ''Buy''), (''moving_average'', ''Sell''),
                (''bollinger_bands'', ''Sell''), (''volatility'', ''Hold'')]"]
  by simp

text \<open>
  C10: the verdict depends only on how many signals are Buy and how many are Sell: two
  signal dictionaries with the same two counts get the same verdict, and so do two
  dictionaries whose values are a permutation of each other.
\<close>

theorem final_suggestion_counts_only:
  "(count_list (map snd s1) ''Buy'' = count_list (map snd s2) ''Buy''
      \<and> count_list (map snd s1) ''Sell'' = count_list (map snd s2) ''Sell''
      \<longrightarrow> calculate_final_suggestion s1 = calculate_final_suggestion s2)
   \<and> (mset (map snd s1) = mset (map snd s2)
      \<longrightarrow> calculate_final_suggestion s1 = calculate_final_suggestion s2)"
proof -
  have counts: "calculate_final_suggestion s1 = calculate_final_suggestion s2"
    if "count_list (map snd s1) ''Buy'' = count_list (map snd s2) ''Buy''"
      and "count_list (map snd s1) ''Sell'' = count_list (map snd s2) ''Sell''"
    using that by (simp add: calculate_final_suggestion_def count_signal_count_list)
  have "count_list (map snd s1) v = count_list (map snd s2) v"
    if "mset (map snd s1) = mset (map snd s2)" for v
    using that by (metis count_mset)
  with counts show ?thesis by blast
qed

theorem final_suggestion_counts_only_witness:
  "calculate_final_suggestion
     [(''rsi'', ''Buy''), (''macd'', ''Hold''), (''moving_average'', ''Sell''),
      (''bollinger_bands'', ''Hold''), (''volatility'', ''Buy'')]
   = calculate_final_suggestion
     [(''rsi'', ''Sell''), (''macd'', ''Buy''), (''moving_average'', ''Buy''),
      (''bollinger_bands'', ''Hold''), (''volatility'', ''Hold'')]"
  using final_suggestion_counts_only
     [of "[(''rsi'', ''Buy''), (''macd'', ''Hold''), (''moving_average'', ''Sell''),
           (''bollinger_bands'', ''Hold''), (''volatility'', ''Buy'')]"
         "[(''rsi'', ''Sell''), (''macd'', ''Buy''), (''moving_average'', ''Buy''),
           (''bollinger_bands'', ''Hold''), (''volatility'', ''Hold'')]"]
  by simp

section \<open>Windows of the moving-average crossover\<close>

text \<open>
  C9, as stated: for every length from 1 to 199 the shrunken short window is smaller
  than the shrunken long window. It fails at length 2, where both windows are 1.
\<close>

theorem ma_windows_shrink_counterexample:
  "\<not> (\<forall>len. 1 \<le> len \<and> len < 200 \<longrightarrow>
        fst (ma_windows len 50 200) < snd (ma_windows len 50 200))"
proof
  assume "\<forall>len. 1 \<le> len \<and> len < 200 \<longrightarrow>
        fst (ma_windows len 50 200) < snd (ma_windows len 50 200)"
  then have "fst (ma_windows 2 50 200) < snd (ma_windows 2 50 200)" by simp
  then show False by (simp add: ma_windows_def)
qed

text \<open>
  C9, amended: for every length from 3 to 199 the shrunken short window is smaller than
  the shrunken long window; at length 1 both windows are 0 and at length 2 both are 1.
\<close>

theorem ma_windows_shrink:
  "(3 \<le> len \<and> len < 200 \<longrightarrow> fst (ma_windows len 50 200) < snd (ma_windows len 50 200))
   \<and> ma_windows 1 50 200 = (0, 0) \<and> ma_windows 2 50 200 = (1, 1)"
  by (auto simp: ma_windows_def)

theorem ma_windows_shrink_witness:
  "(3::int) \<le> 3 \<and> (3::int) < 200 \<and> fst (ma_windows 3 50 200) < snd (ma_windows 3 50 200)
   \<and> ma_windows 3 50 200 = (1, 2)"
  using ma_windows_shrink [of 3] by (simp add: ma_windows_def)

section \<open>Signal classifier\<close>

text \<open>
  C7: a series of fewer than 14 bars has volatility exactly 2.0, and the classifier
  maps that volatility to Hold.
\<close>

theorem volatility_short_series:
  "int (length data) < 14 \<Longrightarrow>
     calculate_volatility data 14 = Fin 2
     \<and> map_of (get_indicator_signals (ind\<lparr>volatility := calculate_volatility data 14\<rparr>))
          ''volatility'' = Some ''Hold''"
  by (simp add: calculate_volatility_def volatility_try_def get_indicator_signals_def fgt_def)

theorem volatility_short_series_witness:
  "int (length [bar_of 100, bar_of 101, bar_of 99]) < 14
   \<and> calculate_volatility [bar_of 100, bar_of 101, bar_of 99] 14 = Fin 2
   \<and> map_of (get_indicator_signals
        (mid_range\<lparr>volatility := calculate_volatility [bar_of 100, bar_of 101, bar_of 99] 14\<rparr>))
        ''volatility'' = Some ''Hold''"
  using volatility_short_series [of "[bar_of 100, bar_of 101, bar_of 99]" mid_range]
  by (simp add: get_indicator_signals_def fgt_def)

text \<open>
  C8: the moving-average entry of the classifier is Buy when the crossover is true and
  Sell when it is false, never Hold; each of the other four entries is Hold on mid-range
  inputs (RSI between 30 and 70, MACD equal to its signal line, the price inside the
  Bollinger band, volatility between 2 and 5).
\<close>

theorem ma_signal_never_hold:
  "map_of (get_indicator_signals ind) ''moving_average''
     = Some (if crossover (ma_data ind) then ''Buy'' else ''Sell'')
   \<and> map_of (get_indicator_signals ind) ''moving_average'' \<noteq> Some ''Hold''
   \<and> (rsi ind = Fin r \<and> 30 \<le> r \<and> r \<le> 70
        \<longrightarrow> map_of (get_indicator_signals ind) ''rsi'' = Some ''Hold'')
   \<and> (macd (macd_data ind) = signal (macd_data ind)
        \<longrightarrow> map_of (get_indicator_signals ind) ''macd'' = Some ''Hold'')
   \<and> (current (bb_data ind) = Fin c \<and> lower (bb_data ind) = Fin l
        \<and> upper (bb_data ind) = Fin u \<and> l \<le> c \<and> c \<le> u
        \<longrightarrow> map_of (get_indicator_signals ind) ''bollinger_bands'' = Some ''Hold'')
   \<and> (volatility ind = Fin v \<and> 2 \<le> v \<and> v \<le> 5
        \<longrightarrow> map_of (get_indicator_signals ind) ''volatility'' = Some ''Hold'')"
  by (simp add: get_indicator_signals_def fgt_def flt_irrefl)

theorem ma_signal_never_hold_witness:
  "get_indicator_signals mid_range =
     [(''rsi'', ''Hold''), (''macd'', ''Hold''), (''moving_average'', ''Sell''),
      (''bollinger_bands'', ''Hold''), (''volatility'', ''Hold'')]"
  using ma_signal_never_hold [of mid_range 50 100 90 110 3]
  by (simp add: mid_range_def get_indicator_signals_def fgt_def)

end
